theory Spec2Isabelle
  imports Complex_Main "HOL-Library.Word"
begin

section \<open>Values shared by the DNS package\<close>

subsection \<open>Addresses (net/netip.Addr)\<close>

text \<open>
  A \<^verbatim>\<open>netip.Addr\<close> is the zero value (no address at all), an IPv4 address or an
  IPv6 address with an optional zone. \<^verbatim>\<open>Is4\<close> holds of IPv4 addresses only and
  \<^verbatim>\<open>Is6\<close> of IPv6 addresses only: the zero value satisfies neither.
\<close>

datatype Addr = AddrZero | Addr4 "32 word" | Addr6 "128 word" string

fun Is4 :: "Addr \<Rightarrow> bool" where
  "Is4 (Addr4 _) = True"
| "Is4 _ = False"

fun Is6 :: "Addr \<Rightarrow> bool" where
  "Is6 (Addr6 _ _) = True"
| "Is6 _ = False"

subsection \<open>Errors\<close>

text \<open>
  Go errors as values. \<open>Error m\<close> is an error with message \<open>m\<close> (\<^verbatim>\<open>fmt.Errorf\<close>
  without \<^verbatim>\<open>%w\<close>, and the errors of the standard library), \<open>StatusError m n\<close> is
  \<^verbatim>\<open>fmt.Errorf(m + "%d", n)\<close>, and \<open>Wrap m e\<close> is \<^verbatim>\<open>fmt.Errorf(m + "%w", e)\<close>.
  A nil error is \<open>None\<close> of \<open>error option\<close>.
\<close>

datatype error = Error string | StatusError string nat | Wrap string error

fun wraps :: "error \<Rightarrow> error \<Rightarrow> bool" where
  "wraps (Wrap m e) e' = (e = e' \<or> wraps e e')"
| "wraps _ _ = False"

subsection \<open>HTTP requests and responses\<close>

datatype http_method = MethodGet | MethodPost | MethodDelete

datatype jvalue = JString string | JNumber int | JBool bool

record request =
  Method :: http_method
  URL :: string
  Header :: "(string \<times> string) list"
  Payload :: "(string \<times> jvalue) list option"

text \<open>
  A response as the providers read it: the status code, the bytes \<^verbatim>\<open>io.ReadAll\<close>
  returns and the error it returns with them (\<open>None\<close> for nil).
\<close>

record response =
  StatusCode :: nat
  Body :: string
  ReadErr :: "error option"

subsection \<open>The JSON structs of the two APIs\<close>

record cfError =
  cfCode :: int
  cfMessage :: string

record cfDNSRecord =
  cfID :: string
  cfType :: string
  cfName :: string
  cfContent :: string
  cfTTL :: int
  cfProxied :: bool

record cfListResponse =
  lSuccess :: bool
  lErrors :: "cfError list"
  lResult :: "cfDNSRecord list"

record cfCreateResponse =
  cSuccess :: bool
  cErrors :: "cfError list"
  cResult :: cfDNSRecord

record cfDeleteResponse =
  dSuccess :: bool
  dErrors :: "cfError list"

record cfZoneResponse =
  zSuccess :: bool
  zErrors :: "cfError list"
  zResultName :: string

record vercelDNSRecord =
  vID :: string
  vType :: string
  vName :: string
  vValue :: string
  vTTL :: int

record vercelListResponse =
  vRecords :: "vercelDNSRecord list"
  vPaginationCount :: int
  vPaginationNext :: string
  vPaginationPrev :: string

record vercelErrorResponse =
  vErrorCode :: string
  vErrorMessage :: string

subsection \<open>What lies outside the repository\<close>

text \<open>
  The network and the Go standard library are parameters of the model. \<open>RoundTrip\<close>
  is the remote side of \<^verbatim>\<open>http.Client.Do\<close>: the answer to a request, which may
  depend on every request sent before it. \<open>NewRequestErr\<close> is the error of
  \<^verbatim>\<open>http.NewRequestWithContext\<close>; the \<open>Unmarshal\<close> fields are
  \<^verbatim>\<open>json.Unmarshal\<close> into each struct; \<open>PathEscape\<close> and \<open>QueryEscape\<close> are those
  of net/url; \<open>AddrString\<close> is \<^verbatim>\<open>netip.Addr.String\<close>; \<open>Getenv\<close> is \<^verbatim>\<open>os.Getenv\<close>.
\<close>

record env =
  RoundTrip :: "request list \<Rightarrow> request \<Rightarrow> error + response"
  NewRequestErr :: "http_method \<Rightarrow> string \<Rightarrow> error option"
  UnmarshalZone :: "string \<Rightarrow> error + cfZoneResponse"
  UnmarshalList :: "string \<Rightarrow> error + cfListResponse"
  UnmarshalCreate :: "string \<Rightarrow> error + cfCreateResponse"
  UnmarshalDelete :: "string \<Rightarrow> error + cfDeleteResponse"
  UnmarshalVercelList :: "string \<Rightarrow> error + vercelListResponse"
  UnmarshalVercelError :: "string \<Rightarrow> error + vercelErrorResponse"
  PathEscape :: "string \<Rightarrow> string"
  QueryEscape :: "string \<Rightarrow> string"
  AddrString :: "Addr \<Rightarrow> string"
  Getenv :: "string \<Rightarrow> string"

text \<open>
  The state of the network is the list of requests sent so far, oldest first.
  \<open>client_Do\<close> sends one request. \<open>send\<close> is the sequence every provider method
  starts with: build the request, give up if that fails, set the two headers, send.
\<close>

definition client_Do :: "env \<Rightarrow> request \<Rightarrow> request list \<Rightarrow> (error + response) \<times> request list" where
  "client_Do E req lg = (RoundTrip E lg req, lg @ [req])"

definition with_headers :: "string \<Rightarrow> request \<Rightarrow> request" where
  "with_headers tok req =
     req\<lparr>Header := [(''Authorization'', ''Bearer '' @ tok),
                      (''Content-Type'', ''application/json'')]\<rparr>"

definition send :: "env \<Rightarrow> string \<Rightarrow> request \<Rightarrow> request list \<Rightarrow> (error + response) \<times> request list" where
  "send E tok req lg =
     (case NewRequestErr E (Method req) (URL req) of
        Some err \<Rightarrow> (Inl err, lg)
      | None \<Rightarrow> client_Do E (with_headers tok req) lg)"

section \<open>cloudflare.go\<close>

definition cloudflareAPIBase :: string where
  "cloudflareAPIBase = ''https://api.cloudflare.com/client/v4''"

record CloudflareProvider =
  cf_token :: string
  cf_zoneID :: string
  cf_zoneName :: string

definition NewCloudflareProvider :: "string \<Rightarrow> string \<Rightarrow> CloudflareProvider" where
  "NewCloudflareProvider tok zoneID = \<lparr>cf_token = tok, cf_zoneID = zoneID, cf_zoneName = ''''\<rparr>"

text \<open>The error built from an unsuccessful response's error list.\<close>

definition cfAPIError :: "cfError list \<Rightarrow> error" where
  "cfAPIError errs =
     (case errs of
        e # _ \<Rightarrow> Error (''cloudflare API error: '' @ cfMessage e)
      | [] \<Rightarrow> Error ''cloudflare API error: unknown'')"

definition cf_getZoneName_request :: "CloudflareProvider \<Rightarrow> request" where
  "cf_getZoneName_request p =
     \<lparr>Method = MethodGet, URL = cloudflareAPIBase @ ''/zones/'' @ cf_zoneID p,
      Header = [], Payload = None\<rparr>"

definition cf_getZoneName ::
  "env \<Rightarrow> CloudflareProvider \<Rightarrow> request list \<Rightarrow> (error + string) \<times> CloudflareProvider \<times> request list" where
  "cf_getZoneName E p lg =
     (if cf_zoneName p \<noteq> '''' then (Inr (cf_zoneName p), p, lg)
      else
        (case send E (cf_token p) (cf_getZoneName_request p) lg of
           (Inl err, lg') \<Rightarrow> (Inl err, p, lg')
         | (Inr resp, lg') \<Rightarrow>
             (case ReadErr resp of
                Some err \<Rightarrow> (Inl err, p, lg')
              | None \<Rightarrow>
                  (case UnmarshalZone E (Body resp) of
                     Inl err \<Rightarrow> (Inl (Wrap ''parse response: '' err), p, lg')
                   | Inr result \<Rightarrow>
                       if \<not> zSuccess result then (Inl (cfAPIError (zErrors result)), p, lg')
                       else (Inr (zResultName result),
                             p\<lparr>cf_zoneName := zResultName result\<rparr>, lg')))))"

definition cf_buildFQDN ::
  "env \<Rightarrow> CloudflareProvider \<Rightarrow> string \<Rightarrow> request list \<Rightarrow> (error + string) \<times> CloudflareProvider \<times> request list" where
  "cf_buildFQDN E p subdomain lg =
     (case cf_getZoneName E p lg of
        (Inl err, p', lg') \<Rightarrow> (Inl (Wrap ''get zone name: '' err), p', lg')
      | (Inr zoneName, p', lg') \<Rightarrow>
          if subdomain = '''' \<or> subdomain = ''@'' then (Inr zoneName, p', lg')
          else (Inr (subdomain @ ''.'' @ zoneName), p', lg'))"

definition cf_listRecords_request :: "CloudflareProvider \<Rightarrow> string \<Rightarrow> string \<Rightarrow> request" where
  "cf_listRecords_request p name recordType =
     \<lparr>Method = MethodGet,
      URL = cloudflareAPIBase @ ''/zones/'' @ cf_zoneID p @ ''/dns_records?type='' @ recordType
            @ ''&name='' @ name,
      Header = [], Payload = None\<rparr>"

definition cf_listRecords ::
  "env \<Rightarrow> CloudflareProvider \<Rightarrow> string \<Rightarrow> string \<Rightarrow> request list \<Rightarrow> (error + cfDNSRecord list) \<times> request list" where
  "cf_listRecords E p name recordType lg =
     (case send E (cf_token p) (cf_listRecords_request p name recordType) lg of
        (Inl err, lg') \<Rightarrow> (Inl err, lg')
      | (Inr resp, lg') \<Rightarrow>
          (case ReadErr resp of
             Some err \<Rightarrow> (Inl err, lg')
           | None \<Rightarrow>
               (case UnmarshalList E (Body resp) of
                  Inl err \<Rightarrow> (Inl (Wrap ''parse response: '' err), lg')
                | Inr result \<Rightarrow>
                    if \<not> lSuccess result then (Inl (cfAPIError (lErrors result)), lg')
                    else (Inr (lResult result), lg'))))"

definition cf_deleteRecord_request :: "CloudflareProvider \<Rightarrow> string \<Rightarrow> request" where
  "cf_deleteRecord_request p recordID =
     \<lparr>Method = MethodDelete,
      URL = cloudflareAPIBase @ ''/zones/'' @ cf_zoneID p @ ''/dns_records/'' @ recordID,
      Header = [], Payload = None\<rparr>"

definition cf_deleteRecord ::
  "env \<Rightarrow> CloudflareProvider \<Rightarrow> string \<Rightarrow> request list \<Rightarrow> error option \<times> request list" where
  "cf_deleteRecord E p recordID lg =
     (case send E (cf_token p) (cf_deleteRecord_request p recordID) lg of
        (Inl err, lg') \<Rightarrow> (Some err, lg')
      | (Inr resp, lg') \<Rightarrow>
          (case ReadErr resp of
             Some err \<Rightarrow> (Some err, lg')
           | None \<Rightarrow>
               (case UnmarshalDelete E (Body resp) of
                  Inl err \<Rightarrow> (Some (Wrap ''parse response: '' err), lg')
                | Inr result \<Rightarrow>
                    if \<not> dSuccess result then (Some (cfAPIError (dErrors result)), lg')
                    else (None, lg'))))"

definition cf_createRecord_request :: "CloudflareProvider \<Rightarrow> string \<Rightarrow> string \<Rightarrow> string \<Rightarrow> request" where
  "cf_createRecord_request p name recordType content =
     \<lparr>Method = MethodPost,
      URL = cloudflareAPIBase @ ''/zones/'' @ cf_zoneID p @ ''/dns_records'',
      Header = [],
      Payload = Some [(''type'', JString recordType), (''name'', JString name),
                      (''content'', JString content), (''ttl'', JNumber 1),
                      (''proxied'', JBool False)]\<rparr>"

definition cf_createRecord ::
  "env \<Rightarrow> CloudflareProvider \<Rightarrow> string \<Rightarrow> string \<Rightarrow> string \<Rightarrow> request list \<Rightarrow> error option \<times> request list" where
  "cf_createRecord E p name recordType content lg =
     (case send E (cf_token p) (cf_createRecord_request p name recordType content) lg of
        (Inl err, lg') \<Rightarrow> (Some err, lg')
      | (Inr resp, lg') \<Rightarrow>
          (case ReadErr resp of
             Some err \<Rightarrow> (Some err, lg')
           | None \<Rightarrow>
               (case UnmarshalCreate E (Body resp) of
                  Inl err \<Rightarrow> (Some (Wrap ''parse response: '' err), lg')
                | Inr result \<Rightarrow>
                    if \<not> cSuccess result then (Some (cfAPIError (cErrors result)), lg')
                    else (None, lg'))))"

text \<open>The loop of \<^verbatim>\<open>DeleteRecords\<close> over the listed records.\<close>

fun cf_deleteLoop ::
  "env \<Rightarrow> CloudflareProvider \<Rightarrow> cfDNSRecord list \<Rightarrow> request list \<Rightarrow> error option \<times> request list" where
  "cf_deleteLoop E p [] lg = (None, lg)"
| "cf_deleteLoop E p (r # records) lg =
     (case cf_deleteRecord E p (cfID r) lg of
        (Some err, lg') \<Rightarrow> (Some (Wrap (''delete record '' @ cfID r @ '': '') err), lg')
      | (None, lg') \<Rightarrow> cf_deleteLoop E p records lg')"

definition recordTypeOf :: "bool \<Rightarrow> string" where
  "recordTypeOf ipv6 = (if ipv6 then ''AAAA'' else ''A'')"

definition cf_DeleteRecords ::
  "env \<Rightarrow> CloudflareProvider \<Rightarrow> string \<Rightarrow> bool \<Rightarrow> request list \<Rightarrow> error option \<times> CloudflareProvider \<times> request list" where
  "cf_DeleteRecords E p subdomain ipv6 lg =
     (case cf_buildFQDN E p subdomain lg of
        (Inl err, p', lg') \<Rightarrow> (Some err, p', lg')
      | (Inr fqdn, p', lg') \<Rightarrow>
          (case cf_listRecords E p' fqdn (recordTypeOf ipv6) lg' of
             (Inl err, lg'') \<Rightarrow> (Some err, p', lg'')
           | (Inr records, lg'') \<Rightarrow>
               (case cf_deleteLoop E p' records lg'' of (r, lg''') \<Rightarrow> (r, p', lg'''))))"

text \<open>The loop of \<^verbatim>\<open>CreateRecords\<close> over the addresses.\<close>

fun cf_createLoop ::
  "env \<Rightarrow> CloudflareProvider \<Rightarrow> string \<Rightarrow> Addr list \<Rightarrow> request list \<Rightarrow> error option \<times> request list" where
  "cf_createLoop E p fqdn [] lg = (None, lg)"
| "cf_createLoop E p fqdn (ip # ips) lg =
     (case cf_createRecord E p fqdn (recordTypeOf (Is6 ip)) (AddrString E ip) lg of
        (Some err, lg') \<Rightarrow>
          (Some (Wrap (''create record for '' @ AddrString E ip @ '': '') err), lg')
      | (None, lg') \<Rightarrow> cf_createLoop E p fqdn ips lg')"

definition cf_CreateRecords ::
  "env \<Rightarrow> CloudflareProvider \<Rightarrow> string \<Rightarrow> Addr list \<Rightarrow> request list \<Rightarrow> error option \<times> CloudflareProvider \<times> request list" where
  "cf_CreateRecords E p subdomain ips lg =
     (case cf_buildFQDN E p subdomain lg of
        (Inl err, p', lg') \<Rightarrow> (Some err, p', lg')
      | (Inr fqdn, p', lg') \<Rightarrow>
          (case cf_createLoop E p' fqdn ips lg' of (r, lg'') \<Rightarrow> (r, p', lg'')))"

section \<open>The Vercel provider\<close>

definition vercelAPIBase :: string where
  "vercelAPIBase = ''https://api.vercel.com''"

record VercelProvider =
  v_token :: string
  v_domain :: string
  v_teamID :: string

definition NewVercelProvider :: "string \<Rightarrow> string \<Rightarrow> string \<Rightarrow> VercelProvider" where
  "NewVercelProvider tok domain teamID = \<lparr>v_token = tok, v_domain = domain, v_teamID = teamID\<rparr>"

definition vercel_buildURL :: "env \<Rightarrow> VercelProvider \<Rightarrow> string \<Rightarrow> string" where
  "vercel_buildURL E p path =
     (let u = vercelAPIBase @ path in
      if v_teamID p \<noteq> '''' then
        (if List.member u (CHR ''?'') then u @ ''&teamId='' @ QueryEscape E (v_teamID p)
         else u @ ''?teamId='' @ QueryEscape E (v_teamID p))
      else u)"

text \<open>
  The error the three request methods build from a response with status 400 or more:
  the API's own message when the body decodes to one, the status code otherwise.
\<close>

definition vercelAPIError :: "env \<Rightarrow> response \<Rightarrow> error" where
  "vercelAPIError E resp =
     (case UnmarshalVercelError E (Body resp) of
        Inr errResp \<Rightarrow>
          if vErrorMessage errResp \<noteq> '''' then Error (''vercel API error: '' @ vErrorMessage errResp)
          else StatusError ''vercel API error: status '' (StatusCode resp)
      | Inl _ \<Rightarrow> StatusError ''vercel API error: status '' (StatusCode resp))"

definition vercel_listRecords_request :: "env \<Rightarrow> VercelProvider \<Rightarrow> request" where
  "vercel_listRecords_request E p =
     \<lparr>Method = MethodGet,
      URL = vercel_buildURL E p (''/v4/domains/'' @ PathEscape E (v_domain p) @ ''/records''),
      Header = [], Payload = None\<rparr>"

definition vercel_listRecords ::
  "env \<Rightarrow> VercelProvider \<Rightarrow> request list \<Rightarrow> (error + vercelDNSRecord list) \<times> request list" where
  "vercel_listRecords E p lg =
     (case send E (v_token p) (vercel_listRecords_request E p) lg of
        (Inl err, lg') \<Rightarrow> (Inl err, lg')
      | (Inr resp, lg') \<Rightarrow>
          (case ReadErr resp of
             Some err \<Rightarrow> (Inl err, lg')
           | None \<Rightarrow>
               if StatusCode resp \<ge> 400 then (Inl (vercelAPIError E resp), lg')
               else
                 (case UnmarshalVercelList E (Body resp) of
                    Inl err \<Rightarrow> (Inl (Wrap ''parse response: '' err), lg')
                  | Inr result \<Rightarrow> (Inr (vRecords result), lg'))))"

definition vercel_deleteRecord_request :: "env \<Rightarrow> VercelProvider \<Rightarrow> string \<Rightarrow> request" where
  "vercel_deleteRecord_request E p recordID =
     \<lparr>Method = MethodDelete,
      URL = vercel_buildURL E p
              (''/v2/domains/'' @ PathEscape E (v_domain p) @ ''/records/'' @ PathEscape E recordID),
      Header = [], Payload = None\<rparr>"

definition vercel_deleteRecord ::
  "env \<Rightarrow> VercelProvider \<Rightarrow> string \<Rightarrow> request list \<Rightarrow> error option \<times> request list" where
  "vercel_deleteRecord E p recordID lg =
     (case send E (v_token p) (vercel_deleteRecord_request E p recordID) lg of
        (Inl err, lg') \<Rightarrow> (Some err, lg')
      | (Inr resp, lg') \<Rightarrow>
          if StatusCode resp \<ge> 400 then (Some (vercelAPIError E resp), lg')
          else (None, lg'))"

definition vercel_createRecord_request ::
  "env \<Rightarrow> VercelProvider \<Rightarrow> string \<Rightarrow> string \<Rightarrow> string \<Rightarrow> request" where
  "vercel_createRecord_request E p name recordType val =
     \<lparr>Method = MethodPost,
      URL = vercel_buildURL E p (''/v2/domains/'' @ PathEscape E (v_domain p) @ ''/records''),
      Header = [],
      Payload = Some [(''name'', JString name), (''type'', JString recordType),
                      (''value'', JString val), (''ttl'', JNumber 60)]\<rparr>"

definition vercel_createRecord ::
  "env \<Rightarrow> VercelProvider \<Rightarrow> string \<Rightarrow> string \<Rightarrow> string \<Rightarrow> request list \<Rightarrow> error option \<times> request list" where
  "vercel_createRecord E p name recordType val lg =
     (case send E (v_token p) (vercel_createRecord_request E p name recordType val) lg of
        (Inl err, lg') \<Rightarrow> (Some err, lg')
      | (Inr resp, lg') \<Rightarrow>
          if StatusCode resp \<ge> 400 then (Some (vercelAPIError E resp), lg')
          else (None, lg'))"

text \<open>The loop of \<^verbatim>\<open>DeleteRecords\<close>: only records of the type and name asked for are deleted.\<close>

fun vercel_deleteLoop ::
  "env \<Rightarrow> VercelProvider \<Rightarrow> string \<Rightarrow> string \<Rightarrow> vercelDNSRecord list \<Rightarrow> request list \<Rightarrow> error option \<times> request list" where
  "vercel_deleteLoop E p recordType subdomain [] lg = (None, lg)"
| "vercel_deleteLoop E p recordType subdomain (r # records) lg =
     (if vType r = recordType \<and> vName r = subdomain then
        (case vercel_deleteRecord E p (vID r) lg of
           (Some err, lg') \<Rightarrow> (Some (Wrap (''delete record '' @ vID r @ '': '') err), lg')
         | (None, lg') \<Rightarrow> vercel_deleteLoop E p recordType subdomain records lg')
      else vercel_deleteLoop E p recordType subdomain records lg)"

definition vercel_DeleteRecords ::
  "env \<Rightarrow> VercelProvider \<Rightarrow> string \<Rightarrow> bool \<Rightarrow> request list \<Rightarrow> error option \<times> request list" where
  "vercel_DeleteRecords E p subdomain ipv6 lg =
     (case vercel_listRecords E p lg of
        (Inl err, lg') \<Rightarrow> (Some err, lg')
      | (Inr records, lg') \<Rightarrow> vercel_deleteLoop E p (recordTypeOf ipv6) subdomain records lg')"

fun vercel_CreateRecords ::
  "env \<Rightarrow> VercelProvider \<Rightarrow> string \<Rightarrow> Addr list \<Rightarrow> request list \<Rightarrow> error option \<times> request list" where
  "vercel_CreateRecords E p subdomain [] lg = (None, lg)"
| "vercel_CreateRecords E p subdomain (ip # ips) lg =
     (case vercel_createRecord E p subdomain (recordTypeOf (Is6 ip)) (AddrString E ip) lg of
        (Some err, lg') \<Rightarrow>
          (Some (Wrap (''create record for '' @ AddrString E ip @ '': '') err), lg')
      | (None, lg') \<Rightarrow> vercel_CreateRecords E p subdomain ips lg')"

section \<open>The provider interface, NewProvider and Upload\<close>

record Config =
  cfg_Provider :: string
  cfg_Token :: string
  cfg_Zone :: string
  cfg_Subdomain :: string
  cfg_UploadCount :: int
  cfg_TeamID :: string

text \<open>
  The \<^verbatim>\<open>Provider\<close> interface: its methods act on a state \<open>'s\<close> (for the two
  providers of the repository, the provider's fields and the requests sent so far)
  and return the error, \<open>None\<close> for nil.
\<close>

record 's Provider =
  ProviderName :: string
  DeleteRecords :: "string \<Rightarrow> bool \<Rightarrow> 's \<Rightarrow> error option \<times> 's"
  CreateRecords :: "string \<Rightarrow> Addr list \<Rightarrow> 's \<Rightarrow> error option \<times> 's"

text \<open>The two dynamic types an interface value made by \<^verbatim>\<open>NewProvider\<close> can hold.\<close>

datatype provider_impl = Cloudflare CloudflareProvider | Vercel VercelProvider

definition NewProvider :: "env \<Rightarrow> Config \<Rightarrow> error + provider_impl" where
  "NewProvider E cfg =
     (if cfg_Provider cfg = ''cloudflare'' then
        (let tok = (if cfg_Token cfg = '''' then Getenv E ''CF_API_TOKEN'' else cfg_Token cfg);
             zone = (if cfg_Zone cfg = '''' then Getenv E ''CF_ZONE_ID'' else cfg_Zone cfg)
         in if tok = '''' then
              Inl (Error ''cloudflare: API token required (--dns-token or CF_API_TOKEN)'')
            else if zone = '''' then
              Inl (Error ''cloudflare: zone ID required (--dns-zone or CF_ZONE_ID)'')
            else Inr (Cloudflare (NewCloudflareProvider tok zone)))
      else if cfg_Provider cfg = ''vercel'' then
        (let tok = (if cfg_Token cfg = '''' then Getenv E ''VERCEL_TOKEN'' else cfg_Token cfg);
             teamID = (if cfg_TeamID cfg = '''' then Getenv E ''VERCEL_TEAM_ID'' else cfg_TeamID cfg);
             domain = cfg_Zone cfg
         in if tok = '''' then
              Inl (Error ''vercel: API token required (--dns-token or VERCEL_TOKEN)'')
            else if domain = '''' then
              Inl (Error ''vercel: domain required (--dns-zone)'')
            else Inr (Vercel (NewVercelProvider tok domain teamID)))
      else
        Inl (Error (''unknown DNS provider: '' @ cfg_Provider cfg
                    @ '' (supported: cloudflare, vercel)'')))"

text \<open>Method dispatch on the dynamic type.\<close>

definition impl_Name :: "provider_impl \<Rightarrow> string" where
  "impl_Name impl = (case impl of Cloudflare _ \<Rightarrow> ''cloudflare'' | Vercel _ \<Rightarrow> ''vercel'')"

definition impl_DeleteRecords ::
  "env \<Rightarrow> string \<Rightarrow> bool \<Rightarrow> provider_impl \<times> request list \<Rightarrow> error option \<times> provider_impl \<times> request list" where
  "impl_DeleteRecords E subdomain ipv6 s =
     (case s of
        (Cloudflare p, lg) \<Rightarrow>
          (case cf_DeleteRecords E p subdomain ipv6 lg of (r, p', lg') \<Rightarrow> (r, Cloudflare p', lg'))
      | (Vercel p, lg) \<Rightarrow>
          (case vercel_DeleteRecords E p subdomain ipv6 lg of (r, lg') \<Rightarrow> (r, Vercel p, lg')))"

definition impl_CreateRecords ::
  "env \<Rightarrow> string \<Rightarrow> Addr list \<Rightarrow> provider_impl \<times> request list \<Rightarrow> error option \<times> provider_impl \<times> request list" where
  "impl_CreateRecords E subdomain ips s =
     (case s of
        (Cloudflare p, lg) \<Rightarrow>
          (case cf_CreateRecords E p subdomain ips lg of (r, p', lg') \<Rightarrow> (r, Cloudflare p', lg'))
      | (Vercel p, lg) \<Rightarrow>
          (case vercel_CreateRecords E p subdomain ips lg of (r, lg') \<Rightarrow> (r, Vercel p, lg')))"

definition dns_Provider :: "env \<Rightarrow> (provider_impl \<times> request list) Provider" where
  "dns_Provider E =
     \<lparr>ProviderName = '''', DeleteRecords = impl_DeleteRecords E,
      CreateRecords = impl_CreateRecords E\<rparr>"

text \<open>
  The first loop of \<^verbatim>\<open>Upload\<close>: every address goes to \<open>v4\<close> when \<open>Is4\<close> holds of it
  and to \<open>v6\<close> otherwise, in the order of the input.
\<close>

fun separate :: "Addr list \<Rightarrow> Addr list \<Rightarrow> Addr list \<Rightarrow> Addr list \<times> Addr list" where
  "separate [] v4 v6 = (v4, v6)"
| "separate (ip # ips) v4 v6 =
     (if Is4 ip then separate ips (v4 @ [ip]) v6 else separate ips v4 (v6 @ [ip]))"

text \<open>
  \<^verbatim>\<open>Upload\<close>. The lines it prints to stderr when \<open>verbose\<close> is set are not part of
  the model; nothing else depends on \<open>verbose\<close>.
\<close>

definition Upload ::
  "'s Provider \<Rightarrow> string \<Rightarrow> Addr list \<Rightarrow> bool \<Rightarrow> 's \<Rightarrow> error option \<times> 's" where
  "Upload provider subdomain ips verbose s =
     (if length ips = 0 then (None, s)
      else
        (case separate ips [] [] of
           (v4, v6) \<Rightarrow>
             (case
                (if length v4 > 0 then
                   (case DeleteRecords provider subdomain False s of
                      (Some err, s1) \<Rightarrow> (Some (Wrap ''delete A records: '' err), s1)
                    | (None, s1) \<Rightarrow>
                        (case CreateRecords provider subdomain v4 s1 of
                           (Some err, s2) \<Rightarrow> (Some (Wrap ''create A records: '' err), s2)
                         | (None, s2) \<Rightarrow> (None, s2)))
                 else (None, s))
              of
                (Some err, s') \<Rightarrow> (Some err, s')
              | (None, s') \<Rightarrow>
                  (if length v6 > 0 then
                     (case DeleteRecords provider subdomain True s' of
                        (Some err, s1) \<Rightarrow> (Some (Wrap ''delete AAAA records: '' err), s1)
                      | (None, s1) \<Rightarrow>
                          (case CreateRecords provider subdomain v6 s1 of
                             (Some err, s2) \<Rightarrow> (Some (Wrap ''create AAAA records: '' err), s2)
                           | (None, s2) \<Rightarrow> (None, s2)))
                   else (None, s')))))"

text \<open>
  To speak about the order of the provider calls \<open>Upload\<close> makes, a provider is run
  with a journal: \<open>traced P\<close> behaves as \<open>P\<close> and appends every call, with its
  arguments and the error it returned, to a list kept beside \<open>P\<close>'s state.
\<close>

datatype call =
  DeleteRecordsCall string bool "error option"
| CreateRecordsCall string "Addr list" "error option"

definition traced :: "'s Provider \<Rightarrow> ('s \<times> call list) Provider" where
  "traced P =
     \<lparr>ProviderName = ProviderName P,
      DeleteRecords = (\<lambda>subdomain ipv6 (s, tr).
         case DeleteRecords P subdomain ipv6 s of
           (r, s') \<Rightarrow> (r, (s', tr @ [DeleteRecordsCall subdomain ipv6 r]))),
      CreateRecords = (\<lambda>subdomain ips (s, tr).
         case CreateRecords P subdomain ips s of
           (r, s') \<Rightarrow> (r, (s', tr @ [CreateRecordsCall subdomain ips r])))\<rparr>"

section \<open>Vocabulary of the properties\<close>

text \<open>
  A credential as the properties name it: the command-line flag, or the environment
  variable when the flag is empty.
\<close>

definition credential :: "string \<Rightarrow> string \<Rightarrow> string" where
  "credential flag envvar = (if flag = [] then envvar else flag)"

text \<open>The creation requests among the requests of a run, and what each asks for.\<close>

definition creation_requests :: "request list \<Rightarrow> request list" where
  "creation_requests lg = filter (\<lambda>req. Method req = MethodPost) lg"

definition payload_field :: "string \<Rightarrow> request \<Rightarrow> jvalue option" where
  "payload_field k req = (case Payload req of None \<Rightarrow> None | Some kvs \<Rightarrow> map_of kvs k)"

definition cf_created :: "request list \<Rightarrow> (jvalue option \<times> jvalue option) list" where
  "cf_created lg =
     map (\<lambda>req. (payload_field ''type'' req, payload_field ''content'' req)) (creation_requests lg)"

definition vercel_created :: "request list \<Rightarrow> (jvalue option \<times> jvalue option) list" where
  "vercel_created lg =
     map (\<lambda>req. (payload_field ''type'' req, payload_field ''value'' req)) (creation_requests lg)"

text \<open>The journal of the provider calls one run of \<open>Upload\<close> makes.\<close>

definition Upload_calls :: "'s Provider \<Rightarrow> string \<Rightarrow> Addr list \<Rightarrow> bool \<Rightarrow> 's \<Rightarrow> call list" where
  "Upload_calls P subdomain ips verbose s =
     snd (snd (Upload (traced P) subdomain ips verbose (s, [])))"

section \<open>Example environments and providers\<close>

text \<open>
  Concrete surroundings on which the properties are run. In \<open>env_ok\<close> every request
  is answered with status 200, every body decodes to a successful answer, the zone is
  example.com, the Cloudflare listing holds one record and the Vercel listing three.
\<close>

fun example_AddrString :: "Addr \<Rightarrow> string" where
  "example_AddrString AddrZero = ''invalid IP''"
| "example_AddrString (Addr4 _) = ''192.0.2.1''"
| "example_AddrString (Addr6 _ _) = ''2001:db8::1''"

definition response_ok :: response where
  "response_ok = \<lparr>StatusCode = 200, Body = [], ReadErr = None\<rparr>"

definition example_cfRecord :: cfDNSRecord where
  "example_cfRecord =
     \<lparr>cfID = ''r1'', cfType = ''A'', cfName = ''cf.example.com'', cfContent = ''192.0.2.7'',
      cfTTL = 1, cfProxied = False\<rparr>"

definition example_vercelRecords :: "vercelDNSRecord list" where
  "example_vercelRecords =
     [\<lparr>vID = ''v1'', vType = ''A'', vName = ''cf'', vValue = ''192.0.2.7'', vTTL = 60\<rparr>,
      \<lparr>vID = ''v2'', vType = ''AAAA'', vName = ''cf'', vValue = ''2001:db8::7'', vTTL = 60\<rparr>,
      \<lparr>vID = ''v3'', vType = ''A'', vName = ''www'', vValue = ''192.0.2.8'', vTTL = 60\<rparr>]"

definition env_ok :: env where
  "env_ok =
     \<lparr>RoundTrip = (\<lambda>lg req. Inr response_ok),
      NewRequestErr = (\<lambda>m u. None),
      UnmarshalZone = (\<lambda>b. Inr \<lparr>zSuccess = True, zErrors = [], zResultName = ''example.com''\<rparr>),
      UnmarshalList = (\<lambda>b. Inr \<lparr>lSuccess = True, lErrors = [], lResult = [example_cfRecord]\<rparr>),
      UnmarshalCreate = (\<lambda>b. Inr \<lparr>cSuccess = True, cErrors = [], cResult = example_cfRecord\<rparr>),
      UnmarshalDelete = (\<lambda>b. Inr \<lparr>dSuccess = True, dErrors = []\<rparr>),
      UnmarshalVercelList = (\<lambda>b. Inr \<lparr>vRecords = example_vercelRecords, vPaginationCount = 3,
                                        vPaginationNext = [], vPaginationPrev = []\<rparr>),
      UnmarshalVercelError = (\<lambda>b. Inl (Error ''unexpected end of JSON input'')),
      PathEscape = (\<lambda>s. s),
      QueryEscape = (\<lambda>s. s),
      AddrString = example_AddrString,
      Getenv = (\<lambda>k. [])\<rparr>"

text \<open>As \<open>env_ok\<close>, but the zone lookup answers successfully with an empty zone name.\<close>

definition env_zone_empty :: env where
  "env_zone_empty =
     env_ok\<lparr>UnmarshalZone := (\<lambda>b. Inr \<lparr>zSuccess = True, zErrors = [], zResultName = []\<rparr>)\<rparr>"

text \<open>As \<open>env_ok\<close>, but every GET request fails in transport.\<close>

definition env_get_down :: env where
  "env_get_down =
     env_ok\<lparr>RoundTrip := (\<lambda>lg req. if Method req = MethodGet then Inl (Error ''connection refused'')
                                   else Inr response_ok)\<rparr>"

text \<open>As \<open>env_ok\<close>, but every response carries status 500.\<close>

definition env_status_500 :: env where
  "env_status_500 = env_ok\<lparr>RoundTrip := (\<lambda>lg req. Inr (response_ok\<lparr>StatusCode := 500\<rparr>))\<rparr>"

definition example_cf :: CloudflareProvider where
  "example_cf = NewCloudflareProvider ''tok'' ''zone1''"

definition example_vercel :: VercelProvider where
  "example_vercel = NewVercelProvider ''tok'' ''example.com'' []"

text \<open>A provider whose every deletion fails, and one whose every call succeeds.\<close>

definition failing_provider :: "unit Provider" where
  "failing_provider =
     \<lparr>ProviderName = ''failing'',
      DeleteRecords = (\<lambda>subdomain ipv6 s. (Some (Error ''boom''), s)),
      CreateRecords = (\<lambda>subdomain ips s. (None, s))\<rparr>"

definition succeeding_provider :: "unit Provider" where
  "succeeding_provider =
     \<lparr>ProviderName = ''succeeding'',
      DeleteRecords = (\<lambda>subdomain ipv6 s. (None, s)),
      CreateRecords = (\<lambda>subdomain ips s. (None, s))\<rparr>"

(*DEFS-END*)

section \<open>Properties of Upload\<close>

lemma separate_filter:
  "separate ips v4 v6 = (v4 @ filter Is4 ips, v6 @ filter (\<lambda>ip. \<not> Is4 ip) ips)"
  by (induction ips arbitrary: v4 v6) simp_all

text \<open>
  C8. For the empty address list \<open>Upload\<close> returns nil at once and calls no provider
  method: run with a journal, the journal is unchanged, and with either provider of
  the repository the provider and the list of requests sent are unchanged.
\<close>

theorem Upload_empty:
  "Upload (traced P) subdomain [] verbose (s, tr) = (None, (s, tr))
   \<and> Upload (dns_Provider E) subdomain [] verbose (impl, lg) = (None, (impl, lg))"
  by (simp add: Upload_def)

section \<open>Properties of NewProvider\<close>

text \<open>
  C10. \<open>NewProvider\<close> returns an error exactly when the provider name is neither
  cloudflare nor vercel, or a required credential is empty after the fallback to the
  environment (cloudflare: the token, from the flag or CF_API_TOKEN, and the zone, from
  the flag or CF_ZONE_ID; vercel: the token, from the flag or VERCEL_TOKEN, and the
  domain). Otherwise it returns a provider of the kind asked for.
\<close>

theorem NewProvider_error_iff:
  "((\<exists>err. NewProvider E cfg = Inl err) =
      ((cfg_Provider cfg \<noteq> ''cloudflare'' \<and> cfg_Provider cfg \<noteq> ''vercel'')
       \<or> (cfg_Provider cfg = ''cloudflare''
            \<and> (credential (cfg_Token cfg) (Getenv E ''CF_API_TOKEN'') = []
                 \<or> credential (cfg_Zone cfg) (Getenv E ''CF_ZONE_ID'') = []))
       \<or> (cfg_Provider cfg = ''vercel''
            \<and> (credential (cfg_Token cfg) (Getenv E ''VERCEL_TOKEN'') = []
                 \<or> cfg_Zone cfg = []))))
   \<and> (case NewProvider E cfg of
         Inl err \<Rightarrow> True
       | Inr impl \<Rightarrow> impl_Name impl = cfg_Provider cfg)"
  by (auto simp: NewProvider_def credential_def impl_Name_def Let_def)

end
